theory Spec2Isabelle
  imports Complex_Main "HOL-Library.Char_ord" "HOL-Library.List_Lexorder"
begin

section \<open>The SeqFISH notebook\<close>

text \<open>
  The repository is one Jupyter notebook, \<^verbatim>\<open>notebooks/SeqFISH.ipynb\<close>. Its code cells
  are straight-line Python over the starfish library, numpy, pandas and scipy. The
  embedding has three layers:
  \<^item> the array and index operations the notebook writes out itself (boolean-mask
    assignment, \<^verbatim>\<open>np.unique\<close>, \<^verbatim>\<open>pd.Series\<close>, \<^verbatim>\<open>Index.intersection\<close>, \<^verbatim>\<open>Index.drop\<close>) as
    HOL functions;
  \<^item> the external library as a record of functions, a parameter of everything below;
  \<^item> the notebook as the list of its statements, each a transformer of the kernel
    state (the variables of the notebook and the image stacks they refer to).

  Pixel intensities are modelled as real numbers; IEEE rounding and NaN are outside the
  model. Import statements only bind module names and are not modelled.
\<close>

subsection \<open>Errors\<close>

datatype error =
    NameError string        \<comment> \<open>a variable read before any cell has bound it\<close>
  | AttributeError string   \<comment> \<open>an attribute read on Python's \<^verbatim>\<open>None\<close>\<close>
  | KeyError string         \<comment> \<open>pandas: a label that is not in the index\<close>
  | IndexError              \<comment> \<open>numpy: a boolean mask of the wrong length\<close>
  | ValueError              \<comment> \<open>numpy: reshape to a shape of another size\<close>
  | LibraryError string     \<comment> \<open>whatever an external library call raises\<close>

definition bnd :: "error + 'a \<Rightarrow> ('a \<Rightarrow> error + 'b) \<Rightarrow> error + 'b" where
  "bnd m f = (case m of Inl e \<Rightarrow> Inl e | Inr x \<Rightarrow> f x)"

definition lookup :: "string \<Rightarrow> 'a option \<Rightarrow> error + 'a" where
  "lookup name v = (case v of None \<Rightarrow> Inl (NameError name) | Some x \<Rightarrow> Inr x)"

definition raise_if :: "error option \<Rightarrow> error + unit" where
  "raise_if r = (case r of Some e \<Rightarrow> Inl e | None \<Rightarrow> Inr ())"

subsection \<open>Array operations written out in the notebook\<close>

type_synonym pixels = "real list"

text \<open>\<^verbatim>\<open>values < t\<close>: the boolean mask of an elementwise comparison.\<close>

definition lt_mask :: "pixels \<Rightarrow> real \<Rightarrow> bool list" where
  "lt_mask values t = map (\<lambda>v. v < t) values"

text \<open>
  \<^verbatim>\<open>values[mask] = c\<close>: assignment through a boolean mask. numpy raises IndexError when
  the mask does not have the shape of the array.
\<close>

definition setitem_mask :: "pixels \<Rightarrow> bool list \<Rightarrow> real \<Rightarrow> error + pixels" where
  "setitem_mask values msk c =
     (if length msk \<noteq> length values then Inl IndexError
      else Inr (map (\<lambda>(v, b). if b then c else v) (zip values msk)))"

text \<open>\<^verbatim>\<open>int(np.sum(target != 'nan'))\<close>\<close>

definition count_not_nan :: "string list \<Rightarrow> int" where
  "count_not_nan target = int (length (filter (\<lambda>b. b) (map (\<lambda>t. t \<noteq> ''nan'') target)))"

text \<open>
  \<^verbatim>\<open>np.unique(target, return_counts=True)\<close>: the sorted distinct values and, for each,
  the number of its occurrences.
\<close>

definition np_unique :: "string list \<Rightarrow> string list \<times> nat list" where
  "np_unique target =
     (let u = sort (remdups target) in (u, map (\<lambda>l. count_list target l) u))"

text \<open>
  A pandas Series of counts indexed by label, as an association list.
  \<^verbatim>\<open>pd.Series(*np.unique(...)[::-1])\<close> reverses the pair, so the counts are the data and
  the distinct values the index.
\<close>

type_synonym series = "(string \<times> nat) list"

definition Series :: "nat list \<Rightarrow> string list \<Rightarrow> series" where
  "Series data index = zip index data"

definition gene_counts :: "string list \<Rightarrow> series" where
  "gene_counts target = (case np_unique target of (u, c) \<Rightarrow> Series c u)"

definition index :: "series \<Rightarrow> string list" where
  "index s = map fst s"

text \<open>\<^verbatim>\<open>Index.intersection\<close>: the labels of the first index that are in the second.\<close>

definition intersection :: "string list \<Rightarrow> string list \<Rightarrow> string list" where
  "intersection ix other = filter (\<lambda>l. l \<in> set other) ix"

text \<open>
  \<^verbatim>\<open>Index.drop(label)\<close> with its default \<^verbatim>\<open>errors='raise'\<close>: KeyError when the label is
  not in the index.
\<close>

definition drop_label :: "string list \<Rightarrow> string \<Rightarrow> error + string list" where
  "drop_label ix l =
     (if l \<in> set ix then Inr (filter (\<lambda>x. x \<noteq> l) ix) else Inl (KeyError l))"

text \<open>\<^verbatim>\<open>series[labels]\<close>: the values at the labels, in their order; KeyError on a missing one.\<close>

fun getitem :: "series \<Rightarrow> string list \<Rightarrow> error + nat list" where
  "getitem s [] = Inr []"
| "getitem s (l # ls) =
     (case map_of s l of
        None \<Rightarrow> Inl (KeyError l)
      | Some c \<Rightarrow> bnd (getitem s ls) (\<lambda>cs. Inr (c # cs)))"

text \<open>\<^verbatim>\<open>np.reshape(a, shape)\<close>: ValueError unless the sizes agree.\<close>

definition np_reshape :: "'a list \<Rightarrow> nat list \<Rightarrow> error + ('a list \<times> nat list)" where
  "np_reshape a shape = (if length a = prod_list shape then Inr (a, shape) else Inl ValueError)"

subsection \<open>The external library\<close>

text \<open>
  What the notebook calls but does not define. Filter, detector and experiment objects
  are the values of their constructor arguments; what a call computes from them is a
  field of the record \<open>library\<close>, so every theorem below holds for any library. The
  type variables are the library's own data: \<open>'e\<close> an experiment, \<open>'c\<close> a codebook,
  \<open>'t\<close> an intensity table, \<open>'k\<close> the connected-component result of the pixel decoder.
  A decoded table is its \<^verbatim>\<open>target\<close> coordinate, the only part the notebook reads.
\<close>

datatype Axes = ROUND | CH | ZPLANE | Y | X

datatype callable =
    Partial_opening nat  \<comment> \<open>\<^verbatim>\<open>partial(opening, selem=disk(r))\<close>\<close>

datatype filter_alg =
    WhiteTophat nat                           \<comment> \<open>\<^verbatim>\<open>masking_radius\<close>\<close>
  | Clip real bool bool                       \<comment> \<open>\<^verbatim>\<open>p_max, expand_dynamic_range, is_volume\<close>\<close>
  | GaussianLowPass "real \<times> real \<times> real" bool  \<comment> \<open>\<^verbatim>\<open>sigma, is_volume\<close>\<close>

datatype spot_detector =
    LocalSearchBlobDetector "real \<times> real \<times> real" "real \<times> real \<times> real" nat real nat
      \<comment> \<open>\<^verbatim>\<open>min_sigma, max_sigma, num_sigma, threshold, search_radius\<close>\<close>

datatype 'c pixel_detector =
    PixelSpotDecoder 'c string real real nat nat
      \<comment> \<open>\<^verbatim>\<open>codebook, metric, distance_threshold, magnitude_threshold, min_area, max_area\<close>\<close>

record ('e, 'c, 't, 'k) library =
  SeqFISH :: "bool \<Rightarrow> error + 'e"
    \<comment> \<open>\<^verbatim>\<open>starfish.data.SeqFISH(use_test_data)\<close>\<close>
  get_image :: "'e \<Rightarrow> string \<Rightarrow> string \<Rightarrow> error + pixels"
    \<comment> \<open>\<^verbatim>\<open>exp[fov].get_image(name)\<close>: the pixel values of the stack that is loaded\<close>
  codebook :: "'e \<Rightarrow> 'c"
    \<comment> \<open>\<^verbatim>\<open>exp.codebook\<close>\<close>
  apply_func :: "callable \<Rightarrow> Axes set \<Rightarrow> pixels \<Rightarrow> error + pixels"
    \<comment> \<open>the values \<^verbatim>\<open>ImageStack.apply(func, group_by)\<close> computes\<close>
  init_filter :: "filter_alg \<Rightarrow> error option"
    \<comment> \<open>what a filter's constructor raises, if anything\<close>
  filter_values :: "filter_alg \<Rightarrow> pixels \<Rightarrow> error + pixels"
    \<comment> \<open>the values a filter's \<^verbatim>\<open>run\<close> computes\<close>
  display :: "pixels \<Rightarrow> 't option \<Rightarrow> error option"
    \<comment> \<open>\<^verbatim>\<open>starfish.display(stack, spots)\<close>\<close>
  init_spot_detector :: "spot_detector \<Rightarrow> error option"
  detect_spots :: "spot_detector \<Rightarrow> pixels \<Rightarrow> error + 't"
    \<comment> \<open>\<^verbatim>\<open>LocalSearchBlobDetector.run(stack)\<close>\<close>
  fillna :: "'t \<Rightarrow> real \<Rightarrow> 't"
  decode_per_round_max :: "'c \<Rightarrow> 't \<Rightarrow> error + string list"
  init_pixel_detector :: "'c pixel_detector \<Rightarrow> error option"
  detect_pixels :: "'c pixel_detector \<Rightarrow> pixels \<Rightarrow> error + (string list \<times> 'k)"
    \<comment> \<open>\<^verbatim>\<open>PixelSpotDecoder.run(stack)\<close>\<close>
  decoded_image :: "'k \<Rightarrow> int list"
  from_numpy :: "int list \<times> nat list \<Rightarrow> error + pixels"
    \<comment> \<open>\<^verbatim>\<open>ImageStack.from_numpy(array)\<close>\<close>
  pearsonr :: "nat list \<Rightarrow> nat list \<Rightarrow> error + (real \<times> real)"
    \<comment> \<open>\<^verbatim>\<open>scipy.stats.pearsonr(x, y)\<close>\<close>

subsection \<open>The kernel state\<close>

text \<open>
  Image stacks are objects: a variable holds a reference, and two variables may hold
  the same one. The heap maps a reference to the pixel values of its stack; references
  below \<open>next_ref\<close> are allocated. Every variable the notebook assigns is a field,
  \<open>None\<close> until a cell has bound it.
\<close>

type_synonym addr = nat

datatype pyref = PyNone | Ref addr

record ('e, 'c, 't, 'k) kernel =
  heap :: "addr \<Rightarrow> pixels"
  next_ref :: addr
  exp_nb :: "'e option"
  img :: "pyref option"
  opening_nb :: "callable option"
  background :: "pyref option"
  wth :: "filter_alg option"
  background_corrected :: "pyref option"
  clip :: "filter_alg option"
  scaled :: "pyref option"
  clipped :: "pyref option"
  threshold :: "real option"
  lsbd :: "spot_detector option"
  intensities :: "'t option"
  decoded :: "string list option"
  glp :: "filter_alg option"
  blurred :: "pyref option"
  psd :: "'c pixel_detector option"
  pixel_decoded :: "string list option"
  ccdr :: "'k option"
  label_image :: "pyref option"
  pixel_decoded_gene_counts :: "series option"
  decoded_gene_counts :: "series option"
  codetected :: "string list option"
  stdout :: "(string \<times> int) list"
  out :: "(real \<times> real) option"

definition fresh :: "('e, 'c, 't, 'k) kernel" where
  "fresh = \<lparr> heap = (\<lambda>_. []), next_ref = 0, exp_nb = None, img = None, opening_nb = None,
     background = None, wth = None, background_corrected = None, clip = None,
     scaled = None, clipped = None, threshold = None, lsbd = None, intensities = None,
     decoded = None, glp = None, blurred = None, psd = None, pixel_decoded = None,
     ccdr = None, label_image = None, pixel_decoded_gene_counts = None,
     decoded_gene_counts = None, codetected = None, stdout = [], out = None \<rparr>"

text \<open>Reading a variable that must hold a stack.\<close>

definition deref :: "string \<Rightarrow> pyref option \<Rightarrow> error + addr" where
  "deref name v =
     bnd (lookup name v) (\<lambda>r. case r of PyNone \<Rightarrow> Inl (AttributeError name) | Ref a \<Rightarrow> Inr a)"

text \<open>A new stack object with the given values.\<close>

definition new_stack ::
  "pixels \<Rightarrow> ('e, 'c, 't, 'k) kernel \<Rightarrow> pyref \<times> ('e, 'c, 't, 'k) kernel" where
  "new_stack px s =
     (Ref (next_ref s), s\<lparr>heap := (heap s)(next_ref s := px), next_ref := Suc (next_ref s)\<rparr>)"

text \<open>
  The library's \<^verbatim>\<open>in_place\<close> protocol, shared by \<^verbatim>\<open>ImageStack.apply\<close> and every filter's
  \<^verbatim>\<open>run\<close>: with \<^verbatim>\<open>in_place=True\<close> the stack passed in is overwritten and \<^verbatim>\<open>None\<close> is
  returned; with \<^verbatim>\<open>in_place=False\<close>, the default, a new stack is returned.
\<close>

definition run_on_stack ::
  "(pixels \<Rightarrow> error + pixels) \<Rightarrow> addr \<Rightarrow> bool \<Rightarrow> ('e, 'c, 't, 'k) kernel
     \<Rightarrow> error + (pyref \<times> ('e, 'c, 't, 'k) kernel)" where
  "run_on_stack f a in_place s =
     bnd (f (heap s a)) (\<lambda>px.
       if in_place then Inr (PyNone, s\<lparr>heap := (heap s)(a := px)\<rparr>)
       else Inr (new_stack px s))"

definition default_in_place :: bool where
  "default_in_place = False"

subsection \<open>The statements of the notebook\<close>

text \<open>One constructor for each statement of a code cell, in the order of the file.\<close>

datatype stmt =
    Load_exp                      \<comment> \<open>\<^verbatim>\<open>exp = starfish.data.SeqFISH(use_test_data=True)\<close>\<close>
  | Load_img                      \<comment> \<open>\<^verbatim>\<open>img = exp['fov_000'].get_image('primary')\<close>\<close>
  | Make_opening                  \<comment> \<open>\<^verbatim>\<open>opening = partial(opening, selem=disk(3))\<close>\<close>
  | Apply_opening                 \<comment> \<open>\<^verbatim>\<open>background = img.apply(opening, group_by=..., in_place=False)\<close>\<close>
  | Display_background            \<comment> \<open>\<^verbatim>\<open>starfish.display(background)\<close>\<close>
  | New_wth                       \<comment> \<open>\<^verbatim>\<open>wth = starfish.image.Filter.WhiteTophat(masking_radius=3)\<close>\<close>
  | Run_wth                       \<comment> \<open>\<^verbatim>\<open>background_corrected = wth.run(img, in_place=False)\<close>\<close>
  | Display_background_corrected  \<comment> \<open>\<^verbatim>\<open>starfish.display(background_corrected)\<close>\<close>
  | New_clip                      \<comment> \<open>\<^verbatim>\<open>clip = starfish.image.Filter.Clip(p_max=99.9, ...)\<close>\<close>
  | Run_clip                      \<comment> \<open>\<^verbatim>\<open>scaled = clip.run(background_corrected, in_place=False)\<close>\<close>
  | Display_scaled                \<comment> \<open>\<^verbatim>\<open>starfish.display(scaled)\<close>\<close>
  | Deepcopy_scaled               \<comment> \<open>\<^verbatim>\<open>clipped = deepcopy(scaled)\<close>\<close>
  | Mask_assign                   \<comment> \<open>\<^verbatim>\<open>clipped.xarray.values[clipped.xarray.values < 0.7] = 0\<close>\<close>
  | Display_clipped               \<comment> \<open>\<^verbatim>\<open>starfish.display(clipped)\<close>\<close>
  | Set_threshold                 \<comment> \<open>\<^verbatim>\<open>threshold = 0.5\<close>\<close>
  | New_lsbd                      \<comment> \<open>\<^verbatim>\<open>lsbd = starfish.spots.DetectSpots.LocalSearchBlobDetector(...)\<close>\<close>
  | Run_lsbd                      \<comment> \<open>\<^verbatim>\<open>intensities = lsbd.run(clipped)\<close>\<close>
  | Decode                        \<comment> \<open>\<^verbatim>\<open>decoded = exp.codebook.decode_per_round_max(intensities.fillna(0))\<close>\<close>
  | Display_intensities           \<comment> \<open>\<^verbatim>\<open>starfish.display(clipped, intensities)\<close>\<close>
  | New_glp                       \<comment> \<open>\<^verbatim>\<open>glp = starfish.image.Filter.GaussianLowPass(sigma=(0.3, 1, 1), is_volume=True)\<close>\<close>
  | Run_glp                       \<comment> \<open>\<^verbatim>\<open>blurred = glp.run(clipped)\<close>\<close>
  | New_psd                       \<comment> \<open>\<^verbatim>\<open>psd = starfish.spots.DetectPixels.PixelSpotDecoder(codebook=exp.codebook, ...)\<close>\<close>
  | Run_psd                       \<comment> \<open>\<^verbatim>\<open>pixel_decoded, ccdr = psd.run(blurred)\<close>\<close>
  | Make_label_image              \<comment> \<open>\<^verbatim>\<open>label_image = starfish.ImageStack.from_numpy(np.reshape(ccdr.decoded_image, (1, 1, 29, 280, 280)))\<close>\<close>
  | Display_label_image           \<comment> \<open>\<^verbatim>\<open>starfish.display(label_image)\<close>\<close>
  | Print_pixel_decoded           \<comment> \<open>\<^verbatim>\<open>print("pixel_decoder spots detected", int(np.sum(pixel_decoded['target'] != 'nan')))\<close>\<close>
  | Print_decoded                 \<comment> \<open>\<^verbatim>\<open>print("local search spot detector spots detected", int(np.sum(decoded['target'] != 'nan')))\<close>\<close>
  | Count_pixel_decoded           \<comment> \<open>\<^verbatim>\<open>pixel_decoded_gene_counts = pd.Series(*np.unique(pixel_decoded['target'], return_counts=True)[::-1])\<close>\<close>
  | Count_decoded                 \<comment> \<open>\<^verbatim>\<open>decoded_gene_counts = pd.Series(*np.unique(decoded['target'], return_counts=True)[::-1])\<close>\<close>
  | Codetect                      \<comment> \<open>\<^verbatim>\<open>codetected = pixel_decoded_gene_counts.index.intersection(decoded_gene_counts.index).drop('nan')\<close>\<close>
  | Correlate                     \<comment> \<open>\<^verbatim>\<open>pearsonr(pixel_decoded_gene_counts[codetected], decoded_gene_counts[codetected])\<close>\<close>

text \<open>\<^verbatim>\<open>starfish.display(stack)\<close> and \<^verbatim>\<open>starfish.display(stack, spots)\<close> read a stack.\<close>

definition show_stack ::
  "('e, 'c, 't, 'k) library \<Rightarrow> string \<Rightarrow> pyref option \<Rightarrow> 't option
     \<Rightarrow> ('e, 'c, 't, 'k) kernel \<Rightarrow> error + ('e, 'c, 't, 'k) kernel" where
  "show_stack L name v spots s =
     bnd (deref name v) (\<lambda>a. bnd (raise_if (display L (heap s a) spots)) (\<lambda>_. Inr s))"

fun exec ::
  "('e, 'c, 't, 'k) library \<Rightarrow> stmt \<Rightarrow> ('e, 'c, 't, 'k) kernel
     \<Rightarrow> error + ('e, 'c, 't, 'k) kernel" where
  "exec L Load_exp s =
     bnd (SeqFISH L True) (\<lambda>e. Inr (s\<lparr>exp_nb := Some e\<rparr>))"
| "exec L Load_img s =
     bnd (lookup ''exp'' (exp_nb s)) (\<lambda>e.
     bnd (get_image L e ''fov_000'' ''primary'') (\<lambda>px.
       case new_stack px s of (r, s') \<Rightarrow> Inr (s'\<lparr>img := Some r\<rparr>)))"
| "exec L Make_opening s =
     Inr (s\<lparr>opening_nb := Some (Partial_opening 3)\<rparr>)"
| "exec L Apply_opening s =
     bnd (deref ''img'' (img s)) (\<lambda>a.
     bnd (lookup ''opening'' (opening_nb s)) (\<lambda>f.
     bnd (run_on_stack (apply_func L f {ROUND, CH, ZPLANE}) a False s) (\<lambda>(r, s').
       Inr (s'\<lparr>background := Some r\<rparr>))))"
| "exec L Display_background s =
     show_stack L ''background'' (background s) None s"
| "exec L New_wth s =
     bnd (raise_if (init_filter L (WhiteTophat 3))) (\<lambda>_.
       Inr (s\<lparr>wth := Some (WhiteTophat 3)\<rparr>))"
| "exec L Run_wth s =
     bnd (lookup ''wth'' (wth s)) (\<lambda>f.
     bnd (deref ''img'' (img s)) (\<lambda>a.
     bnd (run_on_stack (filter_values L f) a False s) (\<lambda>(r, s').
       Inr (s'\<lparr>background_corrected := Some r\<rparr>))))"
| "exec L Display_background_corrected s =
     show_stack L ''background_corrected'' (background_corrected s) None s"
| "exec L New_clip s =
     bnd (raise_if (init_filter L (Clip 99.9 True True))) (\<lambda>_.
       Inr (s\<lparr>clip := Some (Clip 99.9 True True)\<rparr>))"
| "exec L Run_clip s =
     bnd (lookup ''clip'' (clip s)) (\<lambda>f.
     bnd (deref ''background_corrected'' (background_corrected s)) (\<lambda>a.
     bnd (run_on_stack (filter_values L f) a False s) (\<lambda>(r, s').
       Inr (s'\<lparr>scaled := Some r\<rparr>))))"
| "exec L Display_scaled s =
     show_stack L ''scaled'' (scaled s) None s"
| "exec L Deepcopy_scaled s =
     bnd (lookup ''scaled'' (scaled s)) (\<lambda>r.
       case r of
         PyNone \<Rightarrow> Inr (s\<lparr>clipped := Some PyNone\<rparr>)
       | Ref a \<Rightarrow> (case new_stack (heap s a) s of (r', s') \<Rightarrow> Inr (s'\<lparr>clipped := Some r'\<rparr>)))"
| "exec L Mask_assign s =
     bnd (deref ''clipped'' (clipped s)) (\<lambda>a.
     bnd (setitem_mask (heap s a) (lt_mask (heap s a) 0.7) 0) (\<lambda>px.
       Inr (s\<lparr>heap := (heap s)(a := px)\<rparr>)))"
| "exec L Display_clipped s =
     show_stack L ''clipped'' (clipped s) None s"
| "exec L Set_threshold s =
     Inr (s\<lparr>threshold := Some 0.5\<rparr>)"
| "exec L New_lsbd s =
     bnd (lookup ''threshold'' (threshold s)) (\<lambda>t.
     bnd (raise_if (init_spot_detector L
            (LocalSearchBlobDetector (1.5, 1.5, 1.5) (8, 8, 8) 10 t 7))) (\<lambda>_.
       Inr (s\<lparr>lsbd := Some (LocalSearchBlobDetector (1.5, 1.5, 1.5) (8, 8, 8) 10 t 7)\<rparr>)))"
| "exec L Run_lsbd s =
     bnd (lookup ''lsbd'' (lsbd s)) (\<lambda>d.
     bnd (deref ''clipped'' (clipped s)) (\<lambda>a.
     bnd (detect_spots L d (heap s a)) (\<lambda>t.
       Inr (s\<lparr>intensities := Some t\<rparr>))))"
| "exec L Decode s =
     bnd (lookup ''exp'' (exp_nb s)) (\<lambda>e.
     bnd (lookup ''intensities'' (intensities s)) (\<lambda>t.
     bnd (decode_per_round_max L (codebook L e) (fillna L t 0)) (\<lambda>d.
       Inr (s\<lparr>decoded := Some d\<rparr>))))"
| "exec L Display_intensities s =
     bnd (deref ''clipped'' (clipped s)) (\<lambda>a.
     bnd (lookup ''intensities'' (intensities s)) (\<lambda>t.
     bnd (raise_if (display L (heap s a) (Some t))) (\<lambda>_. Inr s)))"
| "exec L New_glp s =
     bnd (raise_if (init_filter L (GaussianLowPass (0.3, 1, 1) True))) (\<lambda>_.
       Inr (s\<lparr>glp := Some (GaussianLowPass (0.3, 1, 1) True)\<rparr>))"
| "exec L Run_glp s =
     bnd (lookup ''glp'' (glp s)) (\<lambda>f.
     bnd (deref ''clipped'' (clipped s)) (\<lambda>a.
     bnd (run_on_stack (filter_values L f) a default_in_place s) (\<lambda>(r, s').
       Inr (s'\<lparr>blurred := Some r\<rparr>))))"
| "exec L New_psd s =
     bnd (lookup ''exp'' (exp_nb s)) (\<lambda>e.
     bnd (raise_if (init_pixel_detector L
            (PixelSpotDecoder (codebook L e) ''euclidean'' 0.5 0.1 7 50))) (\<lambda>_.
       Inr (s\<lparr>psd := Some (PixelSpotDecoder (codebook L e) ''euclidean'' 0.5 0.1 7 50)\<rparr>)))"
| "exec L Run_psd s =
     bnd (lookup ''psd'' (psd s)) (\<lambda>d.
     bnd (deref ''blurred'' (blurred s)) (\<lambda>a.
     bnd (detect_pixels L d (heap s a)) (\<lambda>(t, k).
       Inr (s\<lparr>pixel_decoded := Some t, ccdr := Some k\<rparr>))))"
| "exec L Make_label_image s =
     bnd (lookup ''ccdr'' (ccdr s)) (\<lambda>k.
     bnd (np_reshape (decoded_image L k) [1, 1, 29, 280, 280]) (\<lambda>arr.
     bnd (from_numpy L arr) (\<lambda>px.
       case new_stack px s of (r, s') \<Rightarrow> Inr (s'\<lparr>label_image := Some r\<rparr>))))"
| "exec L Display_label_image s =
     show_stack L ''label_image'' (label_image s) None s"
| "exec L Print_pixel_decoded s =
     bnd (lookup ''pixel_decoded'' (pixel_decoded s)) (\<lambda>t.
       Inr (s\<lparr>stdout := stdout s @ [(''pixel_decoder spots detected'', count_not_nan t)]\<rparr>))"
| "exec L Print_decoded s =
     bnd (lookup ''decoded'' (decoded s)) (\<lambda>t.
       Inr (s\<lparr>stdout := stdout s @
              [(''local search spot detector spots detected'', count_not_nan t)]\<rparr>))"
| "exec L Count_pixel_decoded s =
     bnd (lookup ''pixel_decoded'' (pixel_decoded s)) (\<lambda>t.
       Inr (s\<lparr>pixel_decoded_gene_counts := Some (gene_counts t)\<rparr>))"
| "exec L Count_decoded s =
     bnd (lookup ''decoded'' (decoded s)) (\<lambda>t.
       Inr (s\<lparr>decoded_gene_counts := Some (gene_counts t)\<rparr>))"
| "exec L Codetect s =
     bnd (lookup ''pixel_decoded_gene_counts'' (pixel_decoded_gene_counts s)) (\<lambda>p.
     bnd (lookup ''decoded_gene_counts'' (decoded_gene_counts s)) (\<lambda>d.
     bnd (drop_label (intersection (index p) (index d)) ''nan'') (\<lambda>c.
       Inr (s\<lparr>codetected := Some c\<rparr>))))"
| "exec L Correlate s =
     bnd (lookup ''pixel_decoded_gene_counts'' (pixel_decoded_gene_counts s)) (\<lambda>p.
     bnd (lookup ''codetected'' (codetected s)) (\<lambda>c.
     bnd (getitem p c) (\<lambda>x.
     bnd (lookup ''decoded_gene_counts'' (decoded_gene_counts s)) (\<lambda>d.
     bnd (getitem d c) (\<lambda>y.
     bnd (pearsonr L x y) (\<lambda>r.
       Inr (s\<lparr>out := Some r\<rparr>)))))))"

text \<open>
  Statements run one after the other; the first exception ends the run. A cell is the
  list of its statements, and the notebook the list of its cells, run from the top in
  a fresh kernel.
\<close>

fun run ::
  "('e, 'c, 't, 'k) library \<Rightarrow> stmt list \<Rightarrow> ('e, 'c, 't, 'k) kernel
     \<Rightarrow> error + ('e, 'c, 't, 'k) kernel" where
  "run L [] s = Inr s"
| "run L (st # sts) s = bnd (exec L st s) (run L sts)"

definition cells :: "stmt list list" where
  "cells =
    [[Load_exp],
     [Load_img],
     [Make_opening, Apply_opening, Display_background],
     [New_wth, Run_wth, Display_background_corrected],
     [New_clip, Run_clip],
     [Display_scaled],
     [Deepcopy_scaled, Mask_assign],
     [Display_clipped],
     [Set_threshold, New_lsbd, Run_lsbd, Decode],
     [Display_intensities],
     [New_glp, Run_glp],
     [New_psd, Run_psd],
     [Make_label_image, Display_label_image],
     [Print_pixel_decoded, Print_decoded],
     [Count_pixel_decoded, Count_decoded, Codetect, Correlate]]"

definition notebook :: "stmt list" where
  "notebook = concat cells"

subsection \<open>Stages, callees and the trace of a run\<close>








subsection \<open>The specification's reading of the flow\<close>



subsection \<open>Well-formed kernel states\<close>

text \<open>
  In a state the notebook reaches, a stack variable refers to an allocated stack, and
  \<open>clipped\<close> shares its stack with none of \<open>img\<close>, \<open>background_corrected\<close>, \<open>scaled\<close>.
\<close>

definition allocated :: "addr \<Rightarrow> pyref option \<Rightarrow> bool" where
  "allocated n v = (case v of Some (Ref a) \<Rightarrow> a < n | _ \<Rightarrow> True)"

definition apart :: "pyref option \<Rightarrow> pyref option \<Rightarrow> bool" where
  "apart c v = (case c of Some (Ref a) \<Rightarrow> v \<noteq> Some (Ref a) | _ \<Rightarrow> True)"

definition well_formed :: "('e, 'c, 't, 'k) kernel \<Rightarrow> bool" where
  "well_formed s =
     (allocated (next_ref s) (img s) \<and> allocated (next_ref s) (background_corrected s) \<and>
      allocated (next_ref s) (scaled s) \<and> allocated (next_ref s) (clipped s) \<and>
      apart (clipped s) (img s) \<and> apart (clipped s) (background_corrected s) \<and>
      apart (clipped s) (scaled s))"

text \<open>The three stacks the filters read, and the statement that binds each.\<close>

datatype input_var = Var_img | Var_background_corrected | Var_scaled

fun value_of :: "input_var \<Rightarrow> ('e, 'c, 't, 'k) kernel \<Rightarrow> pyref option" where
  "value_of Var_img s = img s"
| "value_of Var_background_corrected s = background_corrected s"
| "value_of Var_scaled s = scaled s"

fun producer :: "input_var \<Rightarrow> stmt" where
  "producer Var_img = Load_img"
| "producer Var_background_corrected = Run_wth"
| "producer Var_scaled = Run_clip"

subsection \<open>A small library\<close>

text \<open>
  A library over a three-pixel image, to run the notebook on: the tophat subtracts
  0.1, the other filters return their input, each detector returns a fixed table.
\<close>

definition toy :: "(unit, unit, unit, unit) library" where
  "toy = \<lparr> SeqFISH = (\<lambda>_. Inr ()),
     get_image = (\<lambda>_ _ _. Inr [0.3, 1, 0.8]),
     codebook = (\<lambda>_. ()),
     apply_func = (\<lambda>_ _ px. Inr (map (\<lambda>_. 0.1) px)),
     init_filter = (\<lambda>_. None),
     filter_values =
       (\<lambda>f px. case f of WhiteTophat _ \<Rightarrow> Inr (map (\<lambda>v. v - 0.1) px) | _ \<Rightarrow> Inr px),
     display = (\<lambda>_ _. None),
     init_spot_detector = (\<lambda>_. None),
     detect_spots = (\<lambda>_ _. Inr ()),
     fillna = (\<lambda>t _. t),
     decode_per_round_max = (\<lambda>_ _. Inr [''Acta2'', ''nan'', ''Gfap'', ''Acta2'']),
     init_pixel_detector = (\<lambda>_. None),
     detect_pixels = (\<lambda>_ _. Inr ([''Gfap'', ''nan'', ''Acta2''], ())),
     decoded_image = (\<lambda>_. replicate 2273600 0),
     from_numpy = (\<lambda>_. Inr [0, 0, 0]),
     pearsonr = (\<lambda>x y. Inr (1, 0)) \<rparr>"




section \<open>Basic facts\<close>

subsection \<open>Sequencing\<close>

lemma bnd_Inr [simp]: "bnd (Inr x) f = f x" by (simp add: bnd_def)
lemma bnd_Inl [simp]: "bnd (Inl e) f = Inl e" by (simp add: bnd_def)

lemma bnd_eq_Inr: "(bnd m f = Inr y) = (\<exists>x. m = Inr x \<and> f x = Inr y)"
  by (cases m) simp_all

lemma run_append: "run L (xs @ ys) s = bnd (run L xs s) (run L ys)"
  by (induction xs arbitrary: s) (simp_all add: bnd_def split: sum.splits)




subsection \<open>Mask assignment and gene counts\<close>

text \<open>
  Assigning through the mask of a comparison with the array itself never raises, and
  is a map over the values. The index of a series of gene counts is the sorted list of
  the distinct targets, and looking a target up gives the number of its occurrences.
\<close>

lemma setitem_lt_mask:
  "setitem_mask vs (lt_mask vs t) c = Inr (map (\<lambda>v. if v < t then c else v) vs)"
  by (simp add: setitem_mask_def lt_mask_def zip_map2 map_idI) (induction vs; simp)

lemma index_gene_counts: "index (gene_counts p) = sort (remdups p)"
  by (simp add: index_def gene_counts_def np_unique_def Series_def Let_def)






lemma codetected_raises:
  assumes "''nan'' \<notin> set p \<or> ''nan'' \<notin> set d"
  shows "drop_label (intersection (index (gene_counts p)) (index (gene_counts d))) ''nan'' =
     Inl (KeyError ''nan'')"
  using assms by (auto simp: drop_label_def intersection_def index_gene_counts)

subsection \<open>What a statement that returns has done\<close>

text \<open>
  When a statement returns, each variable it read was bound and each call it made
  returned. The only statement after which an allocated stack holds other values than
  before is the masked assignment, on the stack of \<open>clipped\<close>. Every statement keeps
  a state well formed, and leaves the three inputs of the filters and their values alone
  unless it is the statement that binds the variable.
\<close>

lemma lookup_eq_Inr [simp]: "(lookup n v = Inr x) = (v = Some x)"
  by (simp add: lookup_def split: option.splits)

lemma deref_eq_Inr [simp]: "(deref n v = Inr a) = (v = Some (Ref a))"
proof (cases v)
  case None
  then show ?thesis by (simp add: deref_def lookup_def)
next
  case (Some r)
  then show ?thesis by (cases r) (simp_all add: deref_def lookup_def)
qed

lemma raise_if_eq_Inr [simp]: "(raise_if r = Inr u) = (r = None)"
  by (simp add: raise_if_def split: option.splits)

lemma run_on_stack_eq_Inr:
  "(run_on_stack f a in_place s = Inr (r, s')) =
     (\<exists>px. f (heap s a) = Inr px \<and>
        (if in_place then r = PyNone \<and> s' = s\<lparr>heap := (heap s)(a := px)\<rparr>
         else r = Ref (next_ref s) \<and>
              s' = s\<lparr>heap := (heap s)(next_ref s := px), next_ref := Suc (next_ref s)\<rparr>))"
  by (auto simp: run_on_stack_def new_stack_def bnd_eq_Inr)

lemma show_stack_eq_Inr:
  "(show_stack L n v spots s = Inr s') =
     (\<exists>a. v = Some (Ref a) \<and> display L (heap s a) spots = None \<and> s' = s)"
  by (auto simp: show_stack_def bnd_eq_Inr)

lemma deepcopy_eq_Inr:
  "(exec L Deepcopy_scaled s = Inr s') =
     (scaled s = Some PyNone \<and> s' = s\<lparr>clipped := Some PyNone\<rparr> \<or>
      (\<exists>a. scaled s = Some (Ref a) \<and>
         s' = s\<lparr>heap := (heap s)(next_ref s := heap s a), next_ref := Suc (next_ref s),
                 clipped := Some (Ref (next_ref s))\<rparr>))"
proof (cases "scaled s")
  case None
  then show ?thesis by (simp add: lookup_def)
next
  case (Some r)
  then show ?thesis by (cases r) (auto simp: lookup_def new_stack_def)
qed

lemmas exec_Inr =
  bnd_eq_Inr run_on_stack_eq_Inr show_stack_eq_Inr new_stack_def default_in_place_def


lemma allocated_simps [simp]:
  "allocated n None" "allocated n (Some PyNone)" "allocated n (Some (Ref a)) = (a < n)"
  by (simp_all add: allocated_def)

lemma allocated_Suc: "allocated n v \<Longrightarrow> allocated (Suc n) v"
  by (auto simp: allocated_def split: option.splits pyref.splits)

lemma apart_simps [simp]:
  "apart None v" "apart (Some PyNone) v" "apart (Some (Ref a)) v = (v \<noteq> Some (Ref a))"
  by (simp_all add: apart_def)

lemma apart_new: "allocated n c \<Longrightarrow> apart c (Some (Ref n))"
  by (auto simp: allocated_def apart_def split: option.splits pyref.splits)

lemma allocated_neq: "allocated n v \<Longrightarrow> v \<noteq> Some (Ref n)"
  by (auto simp: allocated_def)

lemma well_formed_fresh: "well_formed fresh"
  by (simp add: well_formed_def fresh_def)

lemma exec_well_formed:
  assumes "well_formed s" "exec L st s = Inr s'"
  shows "well_formed s'"
  using assms
  by (cases st)
     (auto simp: well_formed_def exec_Inr deepcopy_eq_Inr simp del: exec.simps(12) split: if_splits
           intro: allocated_Suc apart_new dest: allocated_neq)

lemma exec_keeps:
  assumes "well_formed s" "exec L st s = Inr s'" "st \<noteq> producer v"
  shows "value_of v s' = value_of v s \<and>
     (\<forall>a. value_of v s = Some (Ref a) \<longrightarrow> heap s' a = heap s a)"
  using assms
  by (cases st; cases v)
     (auto simp: well_formed_def exec_Inr deepcopy_eq_Inr simp del: exec.simps(12) split: if_splits)

subsection \<open>Stacks that later statements leave alone\<close>

text \<open>
  The same for a run of statements: by induction on the list, with the state
  generalised. No statement occurs twice in the notebook, so once a variable is bound
  the statement that binds it is not among those still to run.
\<close>

lemma run_well_formed: "well_formed s \<Longrightarrow> run L sts s = Inr s' \<Longrightarrow> well_formed s'"
  by (induction sts arbitrary: s) (auto simp: bnd_eq_Inr dest: exec_well_formed)

lemma run_keeps:
  "well_formed s \<Longrightarrow> run L sts s = Inr s' \<Longrightarrow> producer v \<notin> set sts \<Longrightarrow>
     value_of v s' = value_of v s \<and>
     (\<forall>a. value_of v s = Some (Ref a) \<longrightarrow> heap s' a = heap s a)"
proof (induction sts arbitrary: s)
  case Nil
  then show ?case by simp
next
  case (Cons st sts)
  from Cons.prems(2) obtain s1 where s1: "exec L st s = Inr s1" "run L sts s1 = Inr s'"
    by (auto simp: bnd_eq_Inr)
  from Cons.prems(3) have ne: "st \<noteq> producer v" "producer v \<notin> set sts" by auto
  have wfs1: "well_formed s1" using Cons.prems(1) s1(1) by (rule exec_well_formed)
  have k1: "value_of v s1 = value_of v s \<and>
     (\<forall>a. value_of v s = Some (Ref a) \<longrightarrow> heap s1 a = heap s a)"
    using Cons.prems(1) s1(1) ne(1) by (rule exec_keeps)
  have k2: "value_of v s' = value_of v s1 \<and>
     (\<forall>a. value_of v s1 = Some (Ref a) \<longrightarrow> heap s' a = heap s1 a)"
    using wfs1 s1(2) ne(2) by (rule Cons.IH)
  from k1 k2 show ?case by simp
qed

lemma distinct_notebook: "distinct notebook"
  by (simp add: notebook_def cells_def)

lemma value_of_fresh: "value_of v fresh = None"
  by (cases v) (simp_all add: fresh_def)

lemma kept_until_end:
  assumes pre: "run L (take n notebook) fresh = Inr s1"
    and all: "run L notebook fresh = Inr s2"
    and bound: "value_of v s1 = Some (Ref a)"
  shows "value_of v s2 = Some (Ref a) \<and> heap s2 a = heap s1 a"
proof -
  have "run L (take n notebook @ drop n notebook) fresh = Inr s2"
    using all by simp
  then have post: "run L (drop n notebook) s1 = Inr s2"
    using pre by (simp only: run_append bnd_Inr)
  have wfs1: "well_formed s1" using well_formed_fresh pre by (rule run_well_formed)
  have "producer v \<in> set (take n notebook)"
  proof (rule ccontr)
    assume "producer v \<notin> set (take n notebook)"
    from run_keeps [OF well_formed_fresh pre this] have "value_of v s1 = None"
      by (simp add: value_of_fresh)
    with bound show False by (simp add: value_of_fresh)
  qed
  moreover have "distinct (take n notebook @ drop n notebook)"
    using distinct_notebook by simp
  ultimately have "producer v \<notin> set (drop n notebook)"
    by (simp only: distinct_append) blast
  with wfs1 post have "value_of v s2 = value_of v s1 \<and>
     (\<forall>a. value_of v s1 = Some (Ref a) \<longrightarrow> heap s2 a = heap s1 a)"
    by (rule run_keeps)
  with bound show ?thesis by simp
qed

subsection \<open>Symbolic runs\<close>

text \<open>
  What the library returned on the way when a part of the notebook has run without
  raising: the first eleven statements from a fresh kernel, the others after them, and
  three of the cells from any state.
\<close>

lemmas sym_exec = bnd_eq_Inr lookup_def deref_def
        run_on_stack_def new_stack_def show_stack_def default_in_place_def setitem_lt_mask
        np_reshape_def

lemma rest_success:
  assumes s1: "exp_nb s1 = Some e" "scaled s1 = Some (Ref 3)" "next_ref s1 = 4"
    and run: "run L (drop 11 notebook) s1 = Inr s"
  shows "\<exists>t d pd k.
     clipped s = Some (Ref 4) \<and> blurred s = Some (Ref 5) \<and>
     heap s 4 = map (\<lambda>v. if v < 0.7 then 0 else v) (heap s1 3) \<and>
     detect_spots L (LocalSearchBlobDetector (1.5, 1.5, 1.5) (8, 8, 8) 10 0.5 7) (heap s 4)
       = Inr t \<and>
     intensities s = Some t \<and>
     decode_per_round_max L (codebook L e) (fillna L t 0) = Inr d \<and> decoded s = Some d \<and>
     filter_values L (GaussianLowPass (0.3, 1, 1) True) (heap s 4) = Inr (heap s 5) \<and>
     detect_pixels L (PixelSpotDecoder (codebook L e) ''euclidean'' 0.5 0.1 7 50) (heap s 5)
       = Inr (pd, k) \<and>
     pixel_decoded s = Some pd \<and> ccdr s = Some k \<and> exp_nb s = Some e"
  using run
  apply (simp add: notebook_def cells_def s1 sym_exec)
  apply (clarsimp simp: s1)
  done

lemma small_refs: "Suc (Suc 0) = 2" "Suc (Suc (Suc 0)) = 3" "Suc (Suc (Suc (Suc 0))) = 4"
  by simp_all

lemma first_part:
  assumes "run L (take 11 notebook) fresh = Inr s1"
  shows "\<exists>e. SeqFISH L True = Inr e \<and> exp_nb s1 = Some e \<and> img s1 = Some (Ref 0) \<and>
     background_corrected s1 = Some (Ref 2) \<and> scaled s1 = Some (Ref 3) \<and> next_ref s1 = 4 \<and>
     filter_values L (WhiteTophat 3) (heap s1 0) = Inr (heap s1 2)"
  using assms
  apply (simp add: notebook_def cells_def fresh_def sym_exec)
  apply (clarsimp simp: small_refs)
  done



lemma bnd_run_Nil [simp]: "bnd m (run L []) = m"
  by (cases m) simp_all


subsection \<open>Traces and stages\<close>





subsection \<open>Runs of the small library\<close>

lemma toy_counts_pixel:
  "gene_counts [''Gfap'', ''nan'', ''Acta2''] = [(''Acta2'', 1), (''Gfap'', 1), (''nan'', 1)]"
  by code_simp

lemma toy_counts_local:
  "gene_counts [''Acta2'', ''nan'', ''Gfap'', ''Acta2''] =
     [(''Acta2'', 2), (''Gfap'', 1), (''nan'', 1)]"
  by code_simp

lemmas evaluate = notebook_def cells_def fresh_def lookup_def deref_def run_on_stack_def
  new_stack_def show_stack_def raise_if_def default_in_place_def setitem_mask_def lt_mask_def
  np_reshape_def index_def intersection_def drop_label_def


lemma toy_runs: "\<exists>s. run toy notebook fresh = Inr s"
  by (simp add: evaluate toy_def toy_counts_pixel toy_counts_local)



section \<open>The claims\<close>

subsection \<open>C1: the order of the stages\<close>




subsection \<open>C2: the named operations are the library's\<close>

text \<open>
  C2. White-tophat filtering, Gaussian blur, blob detection, codebook matching and
  pixel decoding are each done by the library: when the notebook has run, the stack
  \<open>background_corrected\<close> holds exactly what the library's white tophat returns on the
  pixels of \<open>img\<close>, \<open>blurred\<close> what its Gaussian low-pass returns on the pixels of
  \<open>clipped\<close>, \<open>intensities\<close> what its blob detector returns on them, \<open>decoded\<close> what
  its codebook returns on those intensities, and \<open>pixel_decoded\<close> and \<open>ccdr\<close> what its
  pixel decoder returns on the pixels of \<open>blurred\<close>.
\<close>

theorem operations_are_library_results:
  assumes "run L notebook fresh = Inr s"
  shows "\<exists>e a b c d t dec pd k.
     exp_nb s = Some e \<and> img s = Some (Ref a) \<and> background_corrected s = Some (Ref b) \<and>
     clipped s = Some (Ref c) \<and> blurred s = Some (Ref d) \<and>
     filter_values L (WhiteTophat 3) (heap s a) = Inr (heap s b) \<and>
     filter_values L (GaussianLowPass (0.3, 1, 1) True) (heap s c) = Inr (heap s d) \<and>
     detect_spots L (LocalSearchBlobDetector (1.5, 1.5, 1.5) (8, 8, 8) 10 0.5 7) (heap s c)
       = Inr t \<and>
     intensities s = Some t \<and>
     decode_per_round_max L (codebook L e) (fillna L t 0) = Inr dec \<and> decoded s = Some dec \<and>
     detect_pixels L (PixelSpotDecoder (codebook L e) ''euclidean'' 0.5 0.1 7 50) (heap s d)
       = Inr (pd, k) \<and>
     pixel_decoded s = Some pd \<and> ccdr s = Some k"
proof -
  have "run L (take 11 notebook @ drop 11 notebook) fresh = Inr s"
    using assms by simp
  then obtain s1 where pre: "run L (take 11 notebook) fresh = Inr s1"
    and post: "run L (drop 11 notebook) s1 = Inr s"
    by (auto simp only: run_append bnd_eq_Inr)
  from first_part [OF pre] obtain e where e: "exp_nb s1 = Some e"
    and v: "img s1 = Some (Ref 0)" "background_corrected s1 = Some (Ref 2)"
      "scaled s1 = Some (Ref 3)" "next_ref s1 = 4"
    and tophat: "filter_values L (WhiteTophat 3) (heap s1 0) = Inr (heap s1 2)"
    by blast
  from kept_until_end [OF pre assms, of Var_img 0] v(1)
  have i: "img s = Some (Ref 0)" "heap s 0 = heap s1 0" by simp_all
  from kept_until_end [OF pre assms, of Var_background_corrected 2] v(2)
  have b: "background_corrected s = Some (Ref 2)" "heap s 2 = heap s1 2" by simp_all
  from tophat i(2) b(2)
  have "filter_values L (WhiteTophat 3) (heap s 0) = Inr (heap s 2)" by simp
  with rest_success [OF e v(3) v(4) post] i(1) b(1) show ?thesis by blast
qed

theorem operations_are_library_results_witness:
  "\<exists>s a b. run toy notebook fresh = Inr s \<and> img s = Some (Ref a) \<and>
     background_corrected s = Some (Ref b) \<and>
     filter_values toy (WhiteTophat 3) (heap s a) = Inr (heap s b)"
proof -
  from toy_runs obtain s where s: "run toy notebook fresh = Inr s" by blast
  from operations_are_library_results [OF s] s show ?thesis by blast
qed

subsection \<open>C3: how the notebook alters a stack\<close>




subsection \<open>C4: exceptions\<close>



subsection \<open>C5: the inputs of the filters\<close>



subsection \<open>C6: the values of the clipped stack\<close>



subsection \<open>C7: the comparison of the two detectors\<close>




subsection \<open>C8: stages, calls and control flow\<close>




end
